theory Spec2Isabelle
  imports Complex_Main "HOL-Library.Finite_Map"
begin

section \<open>Values shared by the Go packages\<close>

text \<open>
  Go's \<^verbatim>\<open>float64\<close> is modelled by its order structure only: a finite value is a real
  number, and the three special values are kept apart, because the guards of the market
  store compare with \<^verbatim>\<open><\<close>, \<^verbatim>\<open><=\<close> and \<^verbatim>\<open>>\<close> and every IEEE comparison with NaN is
  false. Rounding is not modelled: no function of the market store or of the contract
  model computes with the numbers it stores.
\<close>

datatype float64 = NaN | NegInf | Fin real | PosInf

fun f64_lt :: "float64 \<Rightarrow> float64 \<Rightarrow> bool" where
  "f64_lt NaN _ = False"
| "f64_lt _ NaN = False"
| "f64_lt (Fin x) (Fin y) = (x < y)"
| "f64_lt NegInf NegInf = False"
| "f64_lt NegInf _ = True"
| "f64_lt _ NegInf = False"
| "f64_lt PosInf _ = False"
| "f64_lt _ PosInf = True"

fun f64_le :: "float64 \<Rightarrow> float64 \<Rightarrow> bool" where
  "f64_le NaN _ = False"
| "f64_le _ NaN = False"
| "f64_le (Fin x) (Fin y) = (x \<le> y)"
| "f64_le NegInf _ = True"
| "f64_le _ NegInf = False"
| "f64_le _ PosInf = True"
| "f64_le PosInf _ = False"

definition f64_gt :: "float64 \<Rightarrow> float64 \<Rightarrow> bool" where
  "f64_gt x y = f64_lt y x"

text \<open>A \<^verbatim>\<open>time.Time\<close> is an instant; only its identity matters here.\<close>

type_synonym time = int

section \<open>Package models: currencies and contracts\<close>

text \<open>
  \<^verbatim>\<open>type Currency int\<close> with seven constants declared by \<^verbatim>\<open>iota\<close>. The type is an
  integer type, so the model keeps it an integer and the enumeration is the set of
  declared constants.
\<close>

type_synonym Currency = int

definition USD :: Currency where "USD = 0"
definition EUR :: Currency where "EUR = 1"
definition GBP :: Currency where "GBP = 2"
definition JPY :: Currency where "JPY = 3"
definition CHF :: Currency where "CHF = 4"
definition AUD :: Currency where "AUD = 5"
definition CAD :: Currency where "CAD = 6"

text \<open>The package-level map \<^verbatim>\<open>currencyNames\<close>, as the list of its entries.\<close>

definition currencyNames :: "(Currency \<times> string) list" where
  "currencyNames =
     [(USD, ''USD''), (EUR, ''EUR''), (GBP, ''GBP''), (JPY, ''JPY''),
      (CHF, ''CHF''), (AUD, ''AUD''), (CAD, ''CAD'')]"

text \<open>
  \<^verbatim>\<open>func (c Currency) String() string { return currencyNames[c] }\<close>: reading a key
  that the map does not hold gives the zero value, the empty string.
\<close>

definition String :: "Currency \<Rightarrow> string" where
  "String c = (case map_of currencyNames c of None \<Rightarrow> [] | Some name \<Rightarrow> name)"

datatype error =
    UnknownCurrency string
  | InvalidRate float64 string
  | InvalidFlatRate float64 string
  | InvalidFlatVol float64 string
  | SpotRateNotFound string
  | DiscountCurveNotFound string
  | VolSurfaceNotFound string

text \<open>
  The message of each \<^verbatim>\<open>fmt.Errorf\<close> call. The rendering of a float by the verb
  \<^verbatim>\<open>%f\<close> belongs to Go's library and is a parameter.
\<close>

fun Error_msg :: "(float64 \<Rightarrow> string) \<Rightarrow> error \<Rightarrow> string" where
  "Error_msg f (UnknownCurrency s) = ''unknown currency: '' @ s"
| "Error_msg f (InvalidRate rate pair) =
     ''invalid rate '' @ f rate @ '' for pair '' @ pair @ '': must be positive''"
| "Error_msg f (InvalidFlatRate flatRate currency) =
     ''invalid flat rate '' @ f flatRate @ '' for currency '' @ currency @
     '': must be non-negative''"
| "Error_msg f (InvalidFlatVol flatVol pair) =
     ''invalid flat volatility '' @ f flatVol @ '' for pair '' @ pair @
     '': must be between 0 and 1''"
| "Error_msg f (SpotRateNotFound pair) = ''spot rate not found for pair '' @ pair"
| "Error_msg f (DiscountCurveNotFound currency) =
     ''discount curve not found for currency '' @ currency"
| "Error_msg f (VolSurfaceNotFound pair) = ''vol surface not found for pair '' @ pair"

text \<open>
  \<^verbatim>\<open>ParseCurrency\<close> ranges over \<^verbatim>\<open>currencyNames\<close> and returns at the first entry whose
  name is the string. Go leaves the iteration order of a map unspecified, so the order
  in which the entries are visited is an argument.
\<close>

fun ParseCurrency :: "(Currency \<times> string) list \<Rightarrow> string \<Rightarrow> error + Currency" where
  "ParseCurrency [] s = Inl (UnknownCurrency s)"
| "ParseCurrency ((c, name) # order) s =
     (if name = s then Inr c else ParseCurrency order s)"

datatype OptionType = Call | Put

text \<open>
  The \<^verbatim>\<open>Contract\<close> interface is sealed by its unexported method \<^verbatim>\<open>isContract\<close>: the
  types that implement it are the seven structs of the package. A value of the datatype
  is a contract all of whose parts are present; a \<^verbatim>\<open>nil\<close> interface value in a field
  is no contract and has no counterpart here.
\<close>

datatype Contract =
    Zero
  | Spot (Domestic: Currency) (Foreign: Currency)
  | Forward (Maturity: time) (FixedRate: float64) (Domestic: Currency) (Foreign: Currency)
  | EurOption (Type: OptionType) (Strike: float64) (Maturity: time)
      (Domestic: Currency) (Foreign: Currency)
  | ZCB (Currency: Currency) (Maturity: time)
  | Scale (Notional: float64) (Contract: Contract)
  | Combine (Left: Contract) (Right: Contract)

section \<open>Package market: the market data store\<close>

record SpotRate =
  sr_Pair :: string
  sr_Rate :: float64
  sr_Timestamp :: time

record DiscountCurve =
  dc_Currency :: string
  dc_FlatRate :: float64
  dc_Compounding :: string
  dc_Timestamp :: time

record VolSurface =
  vs_Pair :: string
  vs_FlatVol :: float64
  vs_Timestamp :: time

subsection \<open>Go maps as references into a store\<close>

text \<open>
  A Go map value is a reference: assigning it, storing it in a struct or passing it to a
  function shares the table it points to. The store keeps the tables, one list for each
  element type, and a map value is \<open>None\<close> for \<^verbatim>\<open>nil\<close> or \<open>Some a\<close> for the table
  at index \<open>a\<close>. A reference beyond the end of the store cannot arise in Go; it is read
  like \<^verbatim>\<open>nil\<close>.
\<close>

type_synonym ref = "nat option"

record heap =
  spotMaps :: "(string, SpotRate) fmap list"
  curveMaps :: "(string, DiscountCurve) fmap list"
  volMaps :: "(string, VolSurface) fmap list"

definition deref :: "'a list \<Rightarrow> ref \<Rightarrow> 'a option" where
  "deref h r = (case r of None \<Rightarrow> None
                | Some a \<Rightarrow> if a < length h then Some (h ! a) else None)"

text \<open>\<^verbatim>\<open>make(map[string]T)\<close>: a fresh empty table.\<close>

definition map_make :: "('k, 'v) fmap list \<Rightarrow> ref \<times> ('k, 'v) fmap list" where
  "map_make h = (Some (length h), h @ [fmempty])"

text \<open>\<^verbatim>\<open>v, exists := m[k]\<close>: reading a \<^verbatim>\<open>nil\<close> map finds nothing.\<close>

definition map_get :: "('k, 'v) fmap list \<Rightarrow> ref \<Rightarrow> 'k \<Rightarrow> 'v option" where
  "map_get h r k = (case deref h r of None \<Rightarrow> None | Some m \<Rightarrow> fmlookup m k)"

text \<open>
  \<^verbatim>\<open>m[k] = v\<close> updates the table in place; on a \<^verbatim>\<open>nil\<close> map Go panics
  (assignment to entry in nil map), which is the result \<open>None\<close>.
\<close>

definition map_set ::
  "('k, 'v) fmap list \<Rightarrow> ref \<Rightarrow> 'k \<Rightarrow> 'v \<Rightarrow> ('k, 'v) fmap list option" where
  "map_set h r k v = (case r of None \<Rightarrow> None
                      | Some a \<Rightarrow> if a < length h then Some (h[a := fmupd k v (h ! a)])
                                  else None)"

text \<open>\<^verbatim>\<open>len(m)\<close>; the length of a \<^verbatim>\<open>nil\<close> map is 0.\<close>

definition map_len :: "('k, 'v) fmap list \<Rightarrow> ref \<Rightarrow> int" where
  "map_len h r = (case deref h r of None \<Rightarrow> 0 | Some m \<Rightarrow> int (fcard (fmdom m)))"

text \<open>The entries a map value holds; a \<^verbatim>\<open>nil\<close> map holds none.\<close>

definition table :: "('k, 'v) fmap list \<Rightarrow> ref \<Rightarrow> ('k, 'v) fmap" where
  "table h r = (case deref h r of None \<Rightarrow> fmempty | Some m \<Rightarrow> m)"

text \<open>
  The copy loop of \<^verbatim>\<open>GetSnapshot\<close>,
  \<^verbatim>\<open>c := make(map[string]T, len(m)); for k, v := range m { c[k] = v }\<close>.
  The loop body, run over the entries in the order \<open>es\<close> in which \<^verbatim>\<open>range\<close>
  happens to visit them, is \<open>range_assign\<close>. \<open>map_clone\<close> allocates the fresh
  table holding the result of the loop; ranging over a \<^verbatim>\<open>nil\<close> map visits nothing and
  leaves the fresh table empty.
\<close>

fun range_assign :: "('k \<times> 'v) list \<Rightarrow> ('k, 'v) fmap \<Rightarrow> ('k, 'v) fmap" where
  "range_assign [] c = c"
| "range_assign ((k, v) # es) c = range_assign es (fmupd k v c)"

definition map_clone :: "('k, 'v) fmap list \<Rightarrow> ref \<Rightarrow> ref \<times> ('k, 'v) fmap list" where
  "map_clone h r =
     (Some (length h), h @ [table h r])"

subsection \<open>Manager and its operations\<close>

text \<open>
  The mutex orders concurrent callers and the logger writes log lines; neither changes
  what is stored, and the model is the sequential behaviour of each method. The clock
  reading of \<^verbatim>\<open>time.Now()\<close> is the argument \<open>now\<close>.
\<close>

record MarketSnapshot =
  SpotRates :: ref
  DiscountCurves :: ref
  VolSurfaces :: ref
  SnapshotTime :: time

record Manager =
  spotRates :: ref
  discountCurves :: ref
  volSurfaces :: ref

text \<open>The struct behind the \<^verbatim>\<open>*Manager\<close> pointer, and the store of map tables.\<close>

record state =
  mgr :: Manager
  mem :: heap

text \<open>A method returning \<^verbatim>\<open>error\<close> returns \<^verbatim>\<open>nil\<close> or an error, unless it panics.\<close>

datatype 'a outcome = Returns 'a | Panics

definition NewManager :: "heap \<Rightarrow> state" where
  "NewManager h =
     (let (rs, hs) = map_make (spotMaps h);
          (rc, hc) = map_make (curveMaps h);
          (rv, hv) = map_make (volMaps h)
      in \<lparr>mgr = \<lparr>spotRates = rs, discountCurves = rc, volSurfaces = rv\<rparr>,
          mem = \<lparr>spotMaps = hs, curveMaps = hc, volMaps = hv\<rparr>\<rparr>)"

definition UpdateSpotRate ::
  "string \<Rightarrow> float64 \<Rightarrow> time \<Rightarrow> state \<Rightarrow> error option outcome \<times> state" where
  "UpdateSpotRate pair rate now s =
     (if f64_le rate (Fin 0) then (Returns (Some (InvalidRate rate pair)), s)
      else case map_set (spotMaps (mem s)) (spotRates (mgr s)) pair
                  \<lparr>sr_Pair = pair, sr_Rate = rate, sr_Timestamp = now\<rparr> of
             None \<Rightarrow> (Panics, s)
           | Some h' \<Rightarrow> (Returns None, s\<lparr>mem := (mem s)\<lparr>spotMaps := h'\<rparr>\<rparr>))"

definition GetSpotRate :: "string \<Rightarrow> state \<Rightarrow> (error + SpotRate) \<times> state" where
  "GetSpotRate pair s =
     (case map_get (spotMaps (mem s)) (spotRates (mgr s)) pair of
        None \<Rightarrow> (Inl (SpotRateNotFound pair), s)
      | Some spot \<Rightarrow> (Inr spot, s))"

definition UpdateDiscountCurve ::
  "string \<Rightarrow> float64 \<Rightarrow> string \<Rightarrow> time \<Rightarrow> state \<Rightarrow> error option outcome \<times> state" where
  "UpdateDiscountCurve currency flatRate compounding now s =
     (if f64_lt flatRate (Fin 0) then (Returns (Some (InvalidFlatRate flatRate currency)), s)
      else case map_set (curveMaps (mem s)) (discountCurves (mgr s)) currency
                  \<lparr>dc_Currency = currency, dc_FlatRate = flatRate,
                   dc_Compounding = compounding, dc_Timestamp = now\<rparr> of
             None \<Rightarrow> (Panics, s)
           | Some h' \<Rightarrow> (Returns None, s\<lparr>mem := (mem s)\<lparr>curveMaps := h'\<rparr>\<rparr>))"

definition GetDiscountCurve :: "string \<Rightarrow> state \<Rightarrow> (error + DiscountCurve) \<times> state" where
  "GetDiscountCurve currency s =
     (case map_get (curveMaps (mem s)) (discountCurves (mgr s)) currency of
        None \<Rightarrow> (Inl (DiscountCurveNotFound currency), s)
      | Some curve \<Rightarrow> (Inr curve, s))"

definition UpdateVolSurface ::
  "string \<Rightarrow> float64 \<Rightarrow> time \<Rightarrow> state \<Rightarrow> error option outcome \<times> state" where
  "UpdateVolSurface pair flatVol now s =
     (if f64_lt flatVol (Fin 0) \<or> f64_gt flatVol (Fin 1)
      then (Returns (Some (InvalidFlatVol flatVol pair)), s)
      else case map_set (volMaps (mem s)) (volSurfaces (mgr s)) pair
                  \<lparr>vs_Pair = pair, vs_FlatVol = flatVol, vs_Timestamp = now\<rparr> of
             None \<Rightarrow> (Panics, s)
           | Some h' \<Rightarrow> (Returns None, s\<lparr>mem := (mem s)\<lparr>volMaps := h'\<rparr>\<rparr>))"

definition GetVolSurface :: "string \<Rightarrow> state \<Rightarrow> (error + VolSurface) \<times> state" where
  "GetVolSurface pair s =
     (case map_get (volMaps (mem s)) (volSurfaces (mgr s)) pair of
        None \<Rightarrow> (Inl (VolSurfaceNotFound pair), s)
      | Some surface \<Rightarrow> (Inr surface, s))"

definition GetSnapshot :: "time \<Rightarrow> state \<Rightarrow> MarketSnapshot \<times> state" where
  "GetSnapshot now s =
     (let (rs, hs) = map_clone (spotMaps (mem s)) (spotRates (mgr s));
          (rc, hc) = map_clone (curveMaps (mem s)) (discountCurves (mgr s));
          (rv, hv) = map_clone (volMaps (mem s)) (volSurfaces (mgr s))
      in (\<lparr>SpotRates = rs, DiscountCurves = rc, VolSurfaces = rv, SnapshotTime = now\<rparr>,
          s\<lparr>mem := \<lparr>spotMaps = hs, curveMaps = hc, volMaps = hv\<rparr>\<rparr>))"

text \<open>
  \<^verbatim>\<open>LoadSnapshot\<close> assigns the three map values of the snapshot to the fields of the
  manager: the references are copied, the tables are not.
\<close>

definition LoadSnapshot :: "MarketSnapshot \<Rightarrow> state \<Rightarrow> state" where
  "LoadSnapshot snapshot s =
     s\<lparr>mgr := \<lparr>spotRates = SpotRates snapshot,
                discountCurves = DiscountCurves snapshot,
                volSurfaces = VolSurfaces snapshot\<rparr>\<rparr>"

definition Stats :: "state \<Rightarrow> (string, int) fmap \<times> state" where
  "Stats s =
     (fmap_of_list
        [(''spot_rates'', map_len (spotMaps (mem s)) (spotRates (mgr s))),
         (''discount_curves'', map_len (curveMaps (mem s)) (discountCurves (mgr s))),
         (''vol_surfaces'', map_len (volMaps (mem s)) (volSurfaces (mgr s)))],
      s)"

subsection \<open>Sequences of the mutating operations\<close>

datatype op =
    OpUpdateSpotRate string float64 time
  | OpUpdateDiscountCurve string float64 string time
  | OpUpdateVolSurface string float64 time
  | OpLoadSnapshot MarketSnapshot

text \<open>
  The state after one call. A call that returns an error or panics leaves the state it
  was given.
\<close>

fun step :: "op \<Rightarrow> state \<Rightarrow> state" where
  "step (OpUpdateSpotRate pair rate now) s = snd (UpdateSpotRate pair rate now s)"
| "step (OpUpdateDiscountCurve currency flatRate compounding now) s =
     snd (UpdateDiscountCurve currency flatRate compounding now s)"
| "step (OpUpdateVolSurface pair flatVol now) s = snd (UpdateVolSurface pair flatVol now s)"
| "step (OpLoadSnapshot snapshot) s = LoadSnapshot snapshot s"

fun run :: "op list \<Rightarrow> state \<Rightarrow> state" where
  "run [] s = s"
| "run (x # xs) s = run xs (step x s)"

text \<open>
  The calls after which every stored spot rate is a positive number: a spot update
  whose rate is a number, any curve or surface update, and the loading of a snapshot
  whose spot rates are all positive when it is loaded.
\<close>

definition positive_rates :: "(string, SpotRate) fmap \<Rightarrow> bool" where
  "positive_rates m = fmpred (\<lambda>pair spot. f64_lt (Fin 0) (sr_Rate spot)) m"

fun op_ok :: "op \<Rightarrow> state \<Rightarrow> bool" where
  "op_ok (OpUpdateSpotRate pair rate now) s = (rate \<noteq> NaN)"
| "op_ok (OpLoadSnapshot snapshot) s =
     positive_rates (table (spotMaps (mem s)) (SpotRates snapshot))"
| "op_ok _ s = True"

fun admissible :: "op list \<Rightarrow> state \<Rightarrow> bool" where
  "admissible [] s = True"
| "admissible (x # xs) s = (op_ok x s \<and> admissible xs (step x s))"

text \<open>A map value that points to a table of the store, as every map made by \<^verbatim>\<open>make\<close> does.\<close>

definition allocated :: "'a list \<Rightarrow> ref \<Rightarrow> bool" where
  "allocated h r = (case r of None \<Rightarrow> False | Some a \<Rightarrow> a < length h)"

text \<open>
  The store of a program that has made no map yet, and the market that the example
  program of the repository sets up in a new manager: one spot rate, two flat discount
  curves and one flat volatility.
\<close>

definition no_tables :: heap where
  "no_tables = \<lparr>spotMaps = [], curveMaps = [], volMaps = []\<rparr>"

definition example_market :: state where
  "example_market =
     run [OpUpdateSpotRate ''EUR/USD'' (Fin 1.10) 1,
          OpUpdateDiscountCurve ''USD'' (Fin 0.05) ''continuous'' 2,
          OpUpdateDiscountCurve ''EUR'' (Fin 0.03) ''continuous'' 3,
          OpUpdateVolSurface ''EUR/USD'' (Fin 0.12) 4]
       (NewManager no_tables)"

text \<open>The manager's spot rates are all positive numbers.\<close>

definition spots_ok :: "state \<Rightarrow> bool" where
  "spots_ok s = positive_rates (table (spotMaps (mem s)) (spotRates (mgr s)))"

text \<open>
  A sequence without \<open>LoadSnapshot\<close>, and a snapshot none of whose maps is a map of
  the manager.
\<close>

fun loads_nothing :: "op list \<Rightarrow> bool" where
  "loads_nothing [] = True"
| "loads_nothing (OpLoadSnapshot snapshot # xs) = False"
| "loads_nothing (x # xs) = loads_nothing xs"

definition apart :: "state \<Rightarrow> MarketSnapshot \<Rightarrow> bool" where
  "apart s snapshot \<longleftrightarrow>
     spotRates (mgr s) \<noteq> SpotRates snapshot
     \<and> discountCurves (mgr s) \<noteq> DiscountCurves snapshot
     \<and> volSurfaces (mgr s) \<noteq> VolSurfaces snapshot"

section \<open>The data model of the specification\<close>

text \<open>
  The specification lists eight contract variants and the observables a conditional
  contract refers to. \<open>SpecContract\<close> follows that list; \<open>Contract\<close> above is
  the type of the Go package. The specification names the two higher-order observables
  without giving their fields, so they carry none here.
\<close>

datatype Direction = Up | Down

datatype Observable =
    ConstBool bool
  | SpotRateObs Currency Currency
  | ForwardRateObs Currency Currency time
  | Barrier Direction float64 Observable
  | MapObs
  | ApplyObs

datatype SpecContract =
    SZero
  | SSpot Currency Currency
  | SForward time float64 Currency Currency
  | SEurOption OptionType float64 time Currency Currency
  | SZCB Currency time
  | SScale float64 SpecContract
  | SCombine SpecContract SpecContract
  | SWhen Observable SpecContract

text \<open>The Go value that stands for a contract of the specification, when there is one.\<close>

fun to_spec :: "Contract \<Rightarrow> SpecContract" where
  "to_spec Zero = SZero"
| "to_spec (Spot d f) = SSpot d f"
| "to_spec (Forward m k d f) = SForward m k d f"
| "to_spec (EurOption t k m d f) = SEurOption t k m d f"
| "to_spec (ZCB c m) = SZCB c m"
| "to_spec (Scale n c) = SScale n (to_spec c)"
| "to_spec (Combine l r) = SCombine (to_spec l) (to_spec r)"

fun of_spec :: "SpecContract \<Rightarrow> Contract option" where
  "of_spec SZero = Some Zero"
| "of_spec (SSpot d f) = Some (Spot d f)"
| "of_spec (SForward m k d f) = Some (Forward m k d f)"
| "of_spec (SEurOption t k m d f) = Some (EurOption t k m d f)"
| "of_spec (SZCB c m) = Some (ZCB c m)"
| "of_spec (SScale n c) = map_option (Scale n) (of_spec c)"
| "of_spec (SCombine l r) =
     (case of_spec l of None \<Rightarrow> None
      | Some l' \<Rightarrow> map_option (Combine l') (of_spec r))"
| "of_spec (SWhen cond c) = None"

fun when_free :: "SpecContract \<Rightarrow> bool" where
  "when_free (SScale n c) = when_free c"
| "when_free (SCombine l r) = (when_free l \<and> when_free r)"
| "when_free (SWhen cond c) = False"
| "when_free _ = True"

section \<open>The valuation engine of the specification\<close>

text \<open>
  Modelled from the spec: the failures of a valuation call, the value of an observable
  (boolean or numeric), and the pricing parameters with their model selector. The engine
  is the Haskell pricing service of the repository, which is not among the Go sources.
\<close>

datatype failure =
    MissingMarketData string
  | InvalidDate
  | UnsupportedModel
  | UnsupportedInterpolation
  | UnsupportedObservable
  | TypeMismatch
  | MalformedContract
  | NumericDomainError

datatype Value = BoolV bool | NumV float64

datatype PricingModel = BlackScholes | LocalVol | Heston

record PricingParams =
  valuationDate :: time
  numeraire :: Currency
  model :: PricingModel

text \<open>
  Modelled from the spec: what the engine is configured with and what its rules call.
  The node limit is the configurable bound on a contract tree (1000 by default). The
  floating-point sum and product, the price of a primitive claim (spot, zero-coupon
  bond, forward, European option) and the resolved spot and forward rates of the
  observables need the exponential, the logarithm and the normal distribution function
  in floating point; they are the fields of the engine, each against a market model
  \<open>'m\<close>.
\<close>

record 'm engine =
  nodeLimit :: nat
  sum64 :: "float64 \<Rightarrow> float64 \<Rightarrow> float64"
  product64 :: "float64 \<Rightarrow> float64 \<Rightarrow> float64"
  primitive :: "SpecContract \<Rightarrow> 'm \<Rightarrow> PricingParams \<Rightarrow> failure + float64"
  spotRate :: "Currency \<Rightarrow> Currency \<Rightarrow> 'm \<Rightarrow> failure + float64"
  forwardRate :: "Currency \<Rightarrow> Currency \<Rightarrow> time \<Rightarrow> 'm \<Rightarrow> time \<Rightarrow> failure + float64"

text \<open>
  Modelled from the spec: the size of a contract tree, in contract nodes, and its depth.
\<close>

fun nodes :: "SpecContract \<Rightarrow> nat" where
  "nodes (SScale n c) = 1 + nodes c"
| "nodes (SCombine l r) = 1 + nodes l + nodes r"
| "nodes (SWhen cond c) = 1 + nodes c"
| "nodes _ = 1"

fun depth :: "SpecContract \<Rightarrow> nat" where
  "depth (SScale n c) = 1 + depth c"
| "depth (SCombine l r) = 1 + max (depth l) (depth r)"
| "depth (SWhen cond c) = 1 + depth c"
| "depth _ = 1"

text \<open>
  Modelled from the spec: a computed value that is not finite is the failure
  \<^verbatim>\<open>NumericDomainError\<close>, caught before it propagates.
\<close>

fun is_finite :: "float64 \<Rightarrow> bool" where
  "is_finite (Fin x) = True"
| "is_finite _ = False"

definition checked :: "float64 \<Rightarrow> failure + float64" where
  "checked v = (if is_finite v then Inr v else Inl NumericDomainError)"

text \<open>
  Modelled from the spec: the observable evaluator. A constant is itself; a spot or
  forward rate observable is the resolved rate; a barrier evaluates its underlying to a
  number \<open>v\<close> (a boolean there is a \<^verbatim>\<open>TypeMismatch\<close>) and holds iff the direction is
  up and \<open>v \<ge> level\<close> or the direction is down and \<open>v \<le> level\<close>; the two
  higher-order observables fail with \<^verbatim>\<open>UnsupportedObservable\<close>.
\<close>

fun evaluate :: "'m engine \<Rightarrow> Observable \<Rightarrow> 'm \<Rightarrow> time \<Rightarrow> failure + Value" where
  "evaluate eng (ConstBool b) mkt date = Inr (BoolV b)"
| "evaluate eng (SpotRateObs d f) mkt date =
     (case spotRate eng d f mkt of Inl e \<Rightarrow> Inl e | Inr v \<Rightarrow> map_sum id NumV (checked v))"
| "evaluate eng (ForwardRateObs d f maturity) mkt date =
     (case forwardRate eng d f maturity mkt date of Inl e \<Rightarrow> Inl e
      | Inr v \<Rightarrow> map_sum id NumV (checked v))"
| "evaluate eng (Barrier dir level underlying) mkt date =
     (case evaluate eng underlying mkt date of Inl e \<Rightarrow> Inl e
      | Inr (BoolV b) \<Rightarrow> Inl TypeMismatch
      | Inr (NumV v) \<Rightarrow>
          Inr (BoolV (case dir of Up \<Rightarrow> f64_le level v | Down \<Rightarrow> f64_le v level)))"
| "evaluate eng MapObs mkt date = Inl UnsupportedObservable"
| "evaluate eng ApplyObs mkt date = Inl UnsupportedObservable"

text \<open>
  Modelled from the spec: the recursive reduction rules of the valuation engine.
  \<^verbatim>\<open>Zero\<close> is worth 0, \<^verbatim>\<open>Scale{n, c}\<close> is \<^verbatim>\<open>n * price(c)\<close>, \<^verbatim>\<open>Combine{l, r}\<close> is
  \<^verbatim>\<open>price(l) + price(r)\<close>, \<^verbatim>\<open>When{cond, c}\<close> evaluates the condition, which must be
  a boolean (else \<^verbatim>\<open>TypeMismatch\<close>), and is \<^verbatim>\<open>price(c)\<close> if it holds and 0 if not. A
  zero-coupon bond or an option whose maturity is before the valuation date fails with
  \<^verbatim>\<open>InvalidDate\<close>. A failure of a part is the failure of the whole.
\<close>

fun reduce :: "'m engine \<Rightarrow> SpecContract \<Rightarrow> 'm \<Rightarrow> PricingParams \<Rightarrow> failure + float64" where
  "reduce eng SZero mkt params = Inr (Fin 0)"
| "reduce eng (SScale n c) mkt params =
     (case reduce eng c mkt params of Inl e \<Rightarrow> Inl e | Inr v \<Rightarrow> checked (product64 eng n v))"
| "reduce eng (SCombine l r) mkt params =
     (case reduce eng l mkt params of Inl e \<Rightarrow> Inl e
      | Inr vl \<Rightarrow> (case reduce eng r mkt params of Inl e \<Rightarrow> Inl e
                   | Inr vr \<Rightarrow> checked (sum64 eng vl vr)))"
| "reduce eng (SWhen cond c) mkt params =
     (case evaluate eng cond mkt (valuationDate params) of Inl e \<Rightarrow> Inl e
      | Inr (NumV x) \<Rightarrow> Inl TypeMismatch
      | Inr (BoolV b) \<Rightarrow> if b then reduce eng c mkt params else Inr (Fin 0))"
| "reduce eng (SZCB ccy maturity) mkt params =
     (if maturity < valuationDate params then Inl InvalidDate
      else case primitive eng (SZCB ccy maturity) mkt params of
             Inl e \<Rightarrow> Inl e | Inr v \<Rightarrow> checked v)"
| "reduce eng (SEurOption kind strike maturity d f) mkt params =
     (if maturity < valuationDate params then Inl InvalidDate
      else case primitive eng (SEurOption kind strike maturity d f) mkt params of
             Inl e \<Rightarrow> Inl e | Inr v \<Rightarrow> checked v)"
| "reduce eng c mkt params =
     (case primitive eng c mkt params of Inl e \<Rightarrow> Inl e | Inr v \<Rightarrow> checked v)"

text \<open>
  Modelled from the spec: the function \<^verbatim>\<open>price\<close>, the entry point of the engine. A
  tree beyond the limit in nodes or in depth is rejected with \<^verbatim>\<open>MalformedContract\<close>, a
  model other than Black-Scholes with \<^verbatim>\<open>UnsupportedModel\<close>, and an admitted contract is
  reduced by the rules. The specification does not order the two rejections; the size is
  checked first here.
\<close>

definition price :: "'m engine \<Rightarrow> SpecContract \<Rightarrow> 'm \<Rightarrow> PricingParams \<Rightarrow> failure + float64" where
  "price eng c mkt params =
     (if nodeLimit eng < nodes c \<or> nodeLimit eng < depth c then Inl MalformedContract
      else if model params \<noteq> BlackScholes then Inl UnsupportedModel
      else reduce eng c mkt params)"

text \<open>
  An engine, parameters and contracts to run the rules on. The sum and product are exact
  on finite values and follow IEEE 754 on the special values; a zero-coupon bond is worth
  0.95 and no other market data is present. \<open>zero_chain k\<close> is \<^verbatim>\<open>Zero\<close> scaled by 1,
  \<open>k\<close> times over.
\<close>

definition example_engine :: "unit engine" where
  "example_engine =
     \<lparr>nodeLimit = 1000,
      sum64 = (\<lambda>x y. case x of Fin a \<Rightarrow> (case y of Fin b \<Rightarrow> Fin (a + b) | NaN \<Rightarrow> NaN | _ \<Rightarrow> y)
                      | NaN \<Rightarrow> NaN
                      | PosInf \<Rightarrow> (case y of NaN \<Rightarrow> NaN | NegInf \<Rightarrow> NaN | _ \<Rightarrow> PosInf)
                      | NegInf \<Rightarrow> (case y of NaN \<Rightarrow> NaN | PosInf \<Rightarrow> NaN | _ \<Rightarrow> NegInf)),
      product64 = (\<lambda>x y. case x of Fin a \<Rightarrow> (case y of Fin b \<Rightarrow> Fin (a * b) | NaN \<Rightarrow> NaN
                                   | PosInf \<Rightarrow> if a = 0 then NaN else if 0 < a then PosInf else NegInf
                                   | NegInf \<Rightarrow> if a = 0 then NaN else if 0 < a then NegInf else PosInf)
                      | NaN \<Rightarrow> NaN
                      | PosInf \<Rightarrow> (case y of Fin b \<Rightarrow> if b = 0 then NaN else if 0 < b then PosInf else NegInf
                                   | NaN \<Rightarrow> NaN | PosInf \<Rightarrow> PosInf | NegInf \<Rightarrow> NegInf)
                      | NegInf \<Rightarrow> (case y of Fin b \<Rightarrow> if b = 0 then NaN else if 0 < b then NegInf else PosInf
                                   | NaN \<Rightarrow> NaN | PosInf \<Rightarrow> NegInf | NegInf \<Rightarrow> PosInf)),
      primitive = (\<lambda>c mkt params. case c of SZCB ccy t \<Rightarrow> Inr (Fin 0.95)
                                      | _ \<Rightarrow> Inl (MissingMarketData ''EUR/USD'')),
      spotRate = (\<lambda>d f mkt. Inl (MissingMarketData ''EUR/USD'')),
      forwardRate = (\<lambda>d f maturity mkt date. Inl (MissingMarketData ''EUR/USD''))\<rparr>"

definition example_params :: PricingParams where
  "example_params = \<lparr>valuationDate = 20250101, numeraire = USD, model = BlackScholes\<rparr>"

primrec zero_chain :: "nat \<Rightarrow> SpecContract" where
  "zero_chain 0 = SZero"
| "zero_chain (Suc k) = SScale (Fin 1) (zero_chain k)"

section \<open>Currencies\<close>

lemmas currency_defs = USD_def EUR_def GBP_def JPY_def CHF_def AUD_def CAD_def

lemma ParseCurrency_found:
  "distinct (map snd order) \<Longrightarrow> (c, name) \<in> set order \<Longrightarrow> ParseCurrency order name = Inr c"
  by (induction order) (auto simp: rev_image_eqI)

lemma ParseCurrency_unknown:
  "s \<notin> snd ` set order \<Longrightarrow> ParseCurrency order s = Inl (UnknownCurrency s)"
  by (induction order) auto

lemma ParseCurrency_Inr:
  "ParseCurrency order s = Inr c \<Longrightarrow> (c, s) \<in> set order"
  by (induction order) (auto split: if_splits)

lemma currencyNames_names_distinct: "inj_on snd (set currencyNames)"
  by (simp add: currencyNames_def currency_defs)

lemma String_named: "(c, name) \<in> set currencyNames \<Longrightarrow> String c = name"
  by (auto simp: String_def currencyNames_def currency_defs)

text \<open>
  Claim C5, as the code has it. \<^verbatim>\<open>Currency\<close> is an integer type, not a closed
  enumeration: 7 is a value of the type and none of the seven constants; its name is the
  empty string, which does not parse.
\<close>

theorem currency_not_closed:
  "(7::Currency) \<notin> {USD, EUR, GBP, JPY, CHF, AUD, CAD}
   \<and> String 7 = []
   \<and> ParseCurrency currencyNames (String 7) = Inl (UnknownCurrency [])"
  by (simp add: String_def currencyNames_def currency_defs)

text \<open>
  Claim C5, amended. The declared constants of the integer type \<^verbatim>\<open>Currency\<close> are
  the seven USD, EUR, GBP, JPY, CHF, AUD and CAD, pairwise different and exactly the keys
  of \<open>currencyNames\<close>; every other value of the type has the empty string for its
  name, which does not parse. In whatever order the map is ranged over, parsing the
  name of one of the seven gives that currency back without error, a string that is
  none of the seven names is rejected with an error, and a successful parse returns one
  of the seven, the one whose name was given.
\<close>

theorem declared_currencies_round_trip:
  assumes "distinct order" and "set order = set currencyNames"
  shows "(c \<in> {USD, EUR, GBP, JPY, CHF, AUD, CAD} \<longrightarrow> ParseCurrency order (String c) = Inr c)
    \<and> (s \<notin> {''USD'', ''EUR'', ''GBP'', ''JPY'', ''CHF'', ''AUD'', ''CAD''} \<longrightarrow>
         ParseCurrency order s = Inl (UnknownCurrency s))
    \<and> (ParseCurrency order s = Inr c \<longrightarrow>
         c \<in> {USD, EUR, GBP, JPY, CHF, AUD, CAD} \<and> String c = s)
    \<and> (c \<notin> {USD, EUR, GBP, JPY, CHF, AUD, CAD} \<longrightarrow>
         String c = [] \<and> ParseCurrency order (String c) = Inl (UnknownCurrency []))
    \<and> fst ` set currencyNames = {USD, EUR, GBP, JPY, CHF, AUD, CAD}
    \<and> distinct [USD, EUR, GBP, JPY, CHF, AUD, CAD]"
proof -
  have d: "distinct (map snd order)"
    using assms currencyNames_names_distinct by (simp add: distinct_map)
  have keys: "fst ` set currencyNames = {USD, EUR, GBP, JPY, CHF, AUD, CAD}"
    by (auto simp: currencyNames_def)
  have names: "snd ` set currencyNames = {''USD'', ''EUR'', ''GBP'', ''JPY'', ''CHF'', ''AUD'', ''CAD''}"
    by (auto simp: currencyNames_def)
  have a: "ParseCurrency order (String c) = Inr c" if "c \<in> {USD, EUR, GBP, JPY, CHF, AUD, CAD}"
  proof -
    from that keys obtain name where m: "(c, name) \<in> set currencyNames"
      by (metis fst_conv imageE surj_pair)
    then have "String c = name" by (rule String_named)
    with m d assms(2) show ?thesis by (simp add: ParseCurrency_found)
  qed
  have b: "ParseCurrency order t = Inl (UnknownCurrency t)"
    if "t \<notin> {''USD'', ''EUR'', ''GBP'', ''JPY'', ''CHF'', ''AUD'', ''CAD''}" for t
    using that names assms(2) by (simp add: ParseCurrency_unknown)
  have c: "c \<in> {USD, EUR, GBP, JPY, CHF, AUD, CAD} \<and> String c = s" if "ParseCurrency order s = Inr c"
  proof -
    from that have m: "(c, s) \<in> set currencyNames" using assms(2) ParseCurrency_Inr by blast
    then have "c \<in> fst ` set currencyNames" by (metis fst_conv image_eqI)
    with m keys show ?thesis by (simp add: String_named)
  qed
  have o: "String c = [] \<and> ParseCurrency order (String c) = Inl (UnknownCurrency [])"
    if "c \<notin> {USD, EUR, GBP, JPY, CHF, AUD, CAD}"
  proof -
    from that keys have "c \<notin> fst ` set currencyNames" by simp
    then have "map_of currencyNames c = None" by (simp add: map_of_eq_None_iff)
    then have e: "String c = []" by (simp add: String_def)
    have "ParseCurrency order [] = Inl (UnknownCurrency [])" by (rule b) simp
    with e show ?thesis by simp
  qed
  have e: "distinct [USD, EUR, GBP, JPY, CHF, AUD, CAD]" by (simp add: currency_defs)
  from a b [of s] c o keys e show ?thesis by blast
qed

theorem declared_currencies_round_trip_witness:
  "distinct (rev currencyNames) \<and> set (rev currencyNames) = set currencyNames
   \<and> ParseCurrency (rev currencyNames) (String GBP) = Inr GBP
   \<and> ParseCurrency (rev currencyNames) ''XYZ'' = Inl (UnknownCurrency ''XYZ'')
   \<and> ParseCurrency (rev currencyNames) ''JPY'' = Inr JPY \<and> String JPY = ''JPY''
   \<and> String 42 = [] \<and> ParseCurrency (rev currencyNames) (String 42) = Inl (UnknownCurrency [])"
proof -
  have d: "distinct (rev currencyNames)" by (simp add: currencyNames_def currency_defs)
  have s: "set (rev currencyNames) = set currencyNames" by simp
  have j: "ParseCurrency (rev currencyNames) ''JPY'' = Inr JPY" by (simp add: currencyNames_def)
  have g: "GBP \<in> {USD, EUR, GBP, JPY, CHF, AUD, CAD}"
    "(42::Currency) \<notin> {USD, EUR, GBP, JPY, CHF, AUD, CAD}"
    "''XYZ'' \<notin> {''USD'', ''EUR'', ''GBP'', ''JPY'', ''CHF'', ''AUD'', ''CAD''}"
    by (simp_all add: currency_defs)
  from declared_currencies_round_trip [OF d s, of GBP "''XYZ''"] g
  have 1: "ParseCurrency (rev currencyNames) (String GBP) = Inr GBP"
    "ParseCurrency (rev currencyNames) ''XYZ'' = Inl (UnknownCurrency ''XYZ'')"
    by blast+
  from declared_currencies_round_trip [OF d s, of JPY "''JPY''"] j
  have 2: "String JPY = ''JPY''" by blast
  from declared_currencies_round_trip [OF d s, of 42 "''XYZ''"] g
  have 3: "String 42 = []" "ParseCurrency (rev currencyNames) (String 42) = Inl (UnknownCurrency [])"
    by blast+
  from d s j 1 2 3 show ?thesis by simp
qed

section \<open>The market data store\<close>

lemmas store_defs = no_tables_def NewManager_def map_make_def map_set_def map_get_def
  map_len_def map_clone_def table_def deref_def

lemma example_market_eq:
  "example_market =
     \<lparr>mgr = \<lparr>spotRates = Some 0, discountCurves = Some 0, volSurfaces = Some 0\<rparr>,
      mem = \<lparr>spotMaps = [fmupd ''EUR/USD''
                 \<lparr>sr_Pair = ''EUR/USD'', sr_Rate = Fin 1.10, sr_Timestamp = 1\<rparr> fmempty],
              curveMaps = [fmupd ''EUR''
                 \<lparr>dc_Currency = ''EUR'', dc_FlatRate = Fin 0.03,
                  dc_Compounding = ''continuous'', dc_Timestamp = 3\<rparr>
                 (fmupd ''USD''
                   \<lparr>dc_Currency = ''USD'', dc_FlatRate = Fin 0.05,
                    dc_Compounding = ''continuous'', dc_Timestamp = 2\<rparr> fmempty)],
              volMaps = [fmupd ''EUR/USD''
                 \<lparr>vs_Pair = ''EUR/USD'', vs_FlatVol = Fin 0.12, vs_Timestamp = 4\<rparr> fmempty]\<rparr>\<rparr>"
  by (simp add: example_market_def UpdateSpotRate_def UpdateDiscountCurve_def
      UpdateVolSurface_def f64_gt_def store_defs)

lemma map_get_table: "map_get h r k = fmlookup (table h r) k"
  by (simp add: map_get_def table_def split: option.splits)

text \<open>
  In whatever order the copy loop visits the entries of a map, the fresh map ends with
  exactly those entries, which is the table that \<open>map_clone\<close> allocates.
\<close>

lemma range_assign_lookup:
  "distinct (map fst es) \<Longrightarrow>
   fmlookup (range_assign es c) k =
     (case map_of es k of None \<Rightarrow> fmlookup c k | Some v \<Rightarrow> Some v)"
proof (induction es arbitrary: c)
  case Nil
  then show ?case by simp
next
  case (Cons e es)
  obtain k' v' where e: "e = (k', v')" by (cases e)
  with Cons.prems have fresh: "map_of es k' = None" and d: "distinct (map fst es)"
    by (auto simp: map_of_eq_None_iff)
  show ?case
    using Cons.IH [OF d, of "fmupd k' v' c"] fresh by (auto simp: e split: option.splits)
qed

lemma range_assign_copies:
  assumes "distinct (map fst es)" and "fmap_of_list es = m"
  shows "range_assign es fmempty = m"
proof (rule fmap_ext)
  fix k
  from assms show "fmlookup (range_assign es fmempty) k = fmlookup m k"
    by (auto simp: range_assign_lookup fmlookup_of_list split: option.splits)
qed

text \<open>
  Claim C10. A manager made by \<open>NewManager\<close>, in any store, is empty: each of the
  three lookups fails for every key, and \<open>Stats\<close> reports 0 for the spot rates, the
  discount curves and the vol surfaces.
\<close>

theorem new_manager_empty:
  "fst (GetSpotRate pair (NewManager h)) = Inl (SpotRateNotFound pair)
   \<and> fst (GetDiscountCurve currency (NewManager h)) = Inl (DiscountCurveNotFound currency)
   \<and> fst (GetVolSurface pair (NewManager h)) = Inl (VolSurfaceNotFound pair)
   \<and> fst (Stats (NewManager h)) =
       fmap_of_list [(''spot_rates'', 0), (''discount_curves'', 0), (''vol_surfaces'', 0)]"
  by (simp add: NewManager_def map_make_def GetSpotRate_def GetDiscountCurve_def
      GetVolSurface_def Stats_def map_get_def map_len_def deref_def fcard_fempty)

text \<open>
  Claim C4. Each lookup returns the entry stored under the key when the manager's map
  has one, and otherwise an error whose message names the missing pair or currency; in
  both cases the state after the call is the state before it.
\<close>

theorem lookup_present_or_named_error:
  "(fmlookup (table (spotMaps (mem s)) (spotRates (mgr s))) pair = Some spot \<longrightarrow>
      GetSpotRate pair s = (Inr spot, s))
   \<and> (fmlookup (table (spotMaps (mem s)) (spotRates (mgr s))) pair = None \<longrightarrow>
      GetSpotRate pair s = (Inl (SpotRateNotFound pair), s))
   \<and> (fmlookup (table (curveMaps (mem s)) (discountCurves (mgr s))) currency = Some curve \<longrightarrow>
      GetDiscountCurve currency s = (Inr curve, s))
   \<and> (fmlookup (table (curveMaps (mem s)) (discountCurves (mgr s))) currency = None \<longrightarrow>
      GetDiscountCurve currency s = (Inl (DiscountCurveNotFound currency), s))
   \<and> (fmlookup (table (volMaps (mem s)) (volSurfaces (mgr s))) pair = Some surface \<longrightarrow>
      GetVolSurface pair s = (Inr surface, s))
   \<and> (fmlookup (table (volMaps (mem s)) (volSurfaces (mgr s))) pair = None \<longrightarrow>
      GetVolSurface pair s = (Inl (VolSurfaceNotFound pair), s))
   \<and> Error_msg f (SpotRateNotFound pair) = ''spot rate not found for pair '' @ pair
   \<and> Error_msg f (DiscountCurveNotFound currency) =
        ''discount curve not found for currency '' @ currency
   \<and> Error_msg f (VolSurfaceNotFound pair) = ''vol surface not found for pair '' @ pair"
  by (simp add: GetSpotRate_def GetDiscountCurve_def GetVolSurface_def map_get_table)

theorem lookup_present_or_named_error_witness:
  "GetSpotRate ''EUR/USD'' example_market
     = (Inr \<lparr>sr_Pair = ''EUR/USD'', sr_Rate = Fin 1.10, sr_Timestamp = 1\<rparr>, example_market)
   \<and> GetSpotRate ''GBP/USD'' example_market
     = (Inl (SpotRateNotFound ''GBP/USD''), example_market)
   \<and> GetDiscountCurve ''USD'' example_market
     = (Inr \<lparr>dc_Currency = ''USD'', dc_FlatRate = Fin 0.05,
              dc_Compounding = ''continuous'', dc_Timestamp = 2\<rparr>, example_market)
   \<and> GetDiscountCurve ''JPY'' example_market
     = (Inl (DiscountCurveNotFound ''JPY''), example_market)
   \<and> GetVolSurface ''EUR/USD'' example_market
     = (Inr \<lparr>vs_Pair = ''EUR/USD'', vs_FlatVol = Fin 0.12, vs_Timestamp = 4\<rparr>, example_market)
   \<and> GetVolSurface ''GBP/USD'' example_market
     = (Inl (VolSurfaceNotFound ''GBP/USD''), example_market)
   \<and> Error_msg (\<lambda>x. []) (SpotRateNotFound ''GBP/USD'') = ''spot rate not found for pair GBP/USD''
   \<and> Error_msg (\<lambda>x. []) (DiscountCurveNotFound ''JPY'')
       = ''discount curve not found for currency JPY''
   \<and> Error_msg (\<lambda>x. []) (VolSurfaceNotFound ''GBP/USD'')
       = ''vol surface not found for pair GBP/USD''"
proof -
  let ?s = example_market
  let ?spot = "\<lparr>sr_Pair = ''EUR/USD'', sr_Rate = Fin 1.10, sr_Timestamp = 1\<rparr>"
  let ?curve = "\<lparr>dc_Currency = ''USD'', dc_FlatRate = Fin 0.05,
              dc_Compounding = ''continuous'', dc_Timestamp = 2\<rparr>"
  let ?surface = "\<lparr>vs_Pair = ''EUR/USD'', vs_FlatVol = Fin 0.12, vs_Timestamp = 4\<rparr>"
  have present:
    "fmlookup (table (spotMaps (mem ?s)) (spotRates (mgr ?s))) ''EUR/USD'' = Some ?spot"
    "fmlookup (table (curveMaps (mem ?s)) (discountCurves (mgr ?s))) ''USD'' = Some ?curve"
    "fmlookup (table (volMaps (mem ?s)) (volSurfaces (mgr ?s))) ''EUR/USD'' = Some ?surface"
    by (simp_all add: example_market_eq table_def deref_def)
  have absent:
    "fmlookup (table (spotMaps (mem ?s)) (spotRates (mgr ?s))) ''GBP/USD'' = None"
    "fmlookup (table (curveMaps (mem ?s)) (discountCurves (mgr ?s))) ''JPY'' = None"
    "fmlookup (table (volMaps (mem ?s)) (volSurfaces (mgr ?s))) ''GBP/USD'' = None"
    by (simp_all add: example_market_eq table_def deref_def)
  from lookup_present_or_named_error
         [of ?s "''EUR/USD''" ?spot "''USD''" ?curve ?surface "\<lambda>x. []"] present
  have p: "GetSpotRate ''EUR/USD'' ?s = (Inr ?spot, ?s)"
    "GetDiscountCurve ''USD'' ?s = (Inr ?curve, ?s)"
    "GetVolSurface ''EUR/USD'' ?s = (Inr ?surface, ?s)"
    by blast+
  from lookup_present_or_named_error
         [of ?s "''GBP/USD''" ?spot "''JPY''" ?curve ?surface "\<lambda>x. []"] absent
  have a: "GetSpotRate ''GBP/USD'' ?s = (Inl (SpotRateNotFound ''GBP/USD''), ?s)"
    "GetDiscountCurve ''JPY'' ?s = (Inl (DiscountCurveNotFound ''JPY''), ?s)"
    "GetVolSurface ''GBP/USD'' ?s = (Inl (VolSurfaceNotFound ''GBP/USD''), ?s)"
    by blast+
  from p a show ?thesis by simp
qed

text \<open>
  Claim C9. \<open>LoadSnapshot\<close> replaces the whole store and validates nothing: after
  it, each lookup succeeds exactly for the keys of the corresponding map of the snapshot
  and returns the snapshot's entry, whatever its values are, so an entry that was stored
  before and is not in the snapshot is not found any more. The tables themselves are not
  touched.
\<close>

theorem load_snapshot_replaces_store:
  "fst (GetSpotRate pair (LoadSnapshot snapshot s)) =
     (case fmlookup (table (spotMaps (mem s)) (SpotRates snapshot)) pair of
        None \<Rightarrow> Inl (SpotRateNotFound pair) | Some spot \<Rightarrow> Inr spot)
   \<and> fst (GetDiscountCurve currency (LoadSnapshot snapshot s)) =
     (case fmlookup (table (curveMaps (mem s)) (DiscountCurves snapshot)) currency of
        None \<Rightarrow> Inl (DiscountCurveNotFound currency) | Some curve \<Rightarrow> Inr curve)
   \<and> fst (GetVolSurface pair (LoadSnapshot snapshot s)) =
     (case fmlookup (table (volMaps (mem s)) (VolSurfaces snapshot)) pair of
        None \<Rightarrow> Inl (VolSurfaceNotFound pair) | Some surface \<Rightarrow> Inr surface)
   \<and> mem (LoadSnapshot snapshot s) = mem s"
  by (simp add: LoadSnapshot_def GetSpotRate_def GetDiscountCurve_def GetVolSurface_def
      map_get_table split: option.splits)

theorem load_snapshot_replaces_store_witness:
  "fst (GetSpotRate ''EUR/USD''
      (LoadSnapshot \<lparr>SpotRates = Some 0, DiscountCurves = None, VolSurfaces = Some 0,
                      SnapshotTime = 5\<rparr>
        (snd (UpdateSpotRate ''GBP/USD'' (Fin 1.3) 4
          (NewManager
            \<lparr>spotMaps = [fmupd ''EUR/USD''
                 \<lparr>sr_Pair = ''EUR/USD'', sr_Rate = Fin 0, sr_Timestamp = 1\<rparr> fmempty],
             curveMaps = [],
             volMaps = [fmupd ''EUR/USD''
                 \<lparr>vs_Pair = ''EUR/USD'', vs_FlatVol = Fin 5, vs_Timestamp = 1\<rparr> fmempty]\<rparr>)))))
     = Inr \<lparr>sr_Pair = ''EUR/USD'', sr_Rate = Fin 0, sr_Timestamp = 1\<rparr>
   \<and> fst (GetSpotRate ''GBP/USD''
      (snd (UpdateSpotRate ''GBP/USD'' (Fin 1.3) 4
          (NewManager
            \<lparr>spotMaps = [fmupd ''EUR/USD''
                 \<lparr>sr_Pair = ''EUR/USD'', sr_Rate = Fin 0, sr_Timestamp = 1\<rparr> fmempty],
             curveMaps = [],
             volMaps = [fmupd ''EUR/USD''
                 \<lparr>vs_Pair = ''EUR/USD'', vs_FlatVol = Fin 5, vs_Timestamp = 1\<rparr> fmempty]\<rparr>))))
     = Inr \<lparr>sr_Pair = ''GBP/USD'', sr_Rate = Fin 1.3, sr_Timestamp = 4\<rparr>
   \<and> fst (GetSpotRate ''GBP/USD''
      (LoadSnapshot \<lparr>SpotRates = Some 0, DiscountCurves = None, VolSurfaces = Some 0,
                      SnapshotTime = 5\<rparr>
        (snd (UpdateSpotRate ''GBP/USD'' (Fin 1.3) 4
          (NewManager
            \<lparr>spotMaps = [fmupd ''EUR/USD''
                 \<lparr>sr_Pair = ''EUR/USD'', sr_Rate = Fin 0, sr_Timestamp = 1\<rparr> fmempty],
             curveMaps = [],
             volMaps = [fmupd ''EUR/USD''
                 \<lparr>vs_Pair = ''EUR/USD'', vs_FlatVol = Fin 5, vs_Timestamp = 1\<rparr> fmempty]\<rparr>)))))
     = Inl (SpotRateNotFound ''GBP/USD'')
   \<and> fst (GetVolSurface ''EUR/USD''
      (LoadSnapshot \<lparr>SpotRates = Some 0, DiscountCurves = None, VolSurfaces = Some 0,
                      SnapshotTime = 5\<rparr>
        (snd (UpdateSpotRate ''GBP/USD'' (Fin 1.3) 4
          (NewManager
            \<lparr>spotMaps = [fmupd ''EUR/USD''
                 \<lparr>sr_Pair = ''EUR/USD'', sr_Rate = Fin 0, sr_Timestamp = 1\<rparr> fmempty],
             curveMaps = [],
             volMaps = [fmupd ''EUR/USD''
                 \<lparr>vs_Pair = ''EUR/USD'', vs_FlatVol = Fin 5, vs_Timestamp = 1\<rparr> fmempty]\<rparr>)))))
     = Inr \<lparr>vs_Pair = ''EUR/USD'', vs_FlatVol = Fin 5, vs_Timestamp = 1\<rparr>"
proof -
  let ?h = "\<lparr>spotMaps = [fmupd ''EUR/USD''
                 \<lparr>sr_Pair = ''EUR/USD'', sr_Rate = Fin 0, sr_Timestamp = 1\<rparr> fmempty],
             curveMaps = [],
             volMaps = [fmupd ''EUR/USD''
                 \<lparr>vs_Pair = ''EUR/USD'', vs_FlatVol = Fin 5, vs_Timestamp = 1\<rparr> fmempty]\<rparr>"
  let ?s = "snd (UpdateSpotRate ''GBP/USD'' (Fin 1.3) 4 (NewManager ?h))"
  let ?snap = "\<lparr>SpotRates = Some 0, DiscountCurves = None, VolSurfaces = Some 0,
                      SnapshotTime = 5\<rparr>"
  have before: "fst (GetSpotRate ''GBP/USD'' ?s)
      = Inr \<lparr>sr_Pair = ''GBP/USD'', sr_Rate = Fin 1.3, sr_Timestamp = 4\<rparr>"
    by (simp add: GetSpotRate_def UpdateSpotRate_def store_defs)
  have m: "spotMaps (mem ?s) ! 0 = fmupd ''EUR/USD''
                 \<lparr>sr_Pair = ''EUR/USD'', sr_Rate = Fin 0, sr_Timestamp = 1\<rparr> fmempty"
     "length (spotMaps (mem ?s)) = 2"
     "volMaps (mem ?s) = [fmupd ''EUR/USD''
                 \<lparr>vs_Pair = ''EUR/USD'', vs_FlatVol = Fin 5, vs_Timestamp = 1\<rparr> fmempty, fmempty]"
    by (simp_all add: UpdateSpotRate_def store_defs)
  from load_snapshot_replaces_store [of "''EUR/USD''" ?snap ?s]
       load_snapshot_replaces_store [of "''GBP/USD''" ?snap ?s] before m
  show ?thesis by (simp add: table_def deref_def)
qed

text \<open>
  Claim C8. An update that returns an error leaves the state exactly as it was, and the
  three updates return their error when the rate is at most 0, the flat rate is below 0,
  or the volatility is below 0 or above 1.
\<close>

theorem rejected_update_atomic:
  "(fst (UpdateSpotRate pair rate now s) = Returns (Some e1) \<longrightarrow>
      snd (UpdateSpotRate pair rate now s) = s)
   \<and> (fst (UpdateDiscountCurve currency flatRate compounding now s) = Returns (Some e2) \<longrightarrow>
      snd (UpdateDiscountCurve currency flatRate compounding now s) = s)
   \<and> (fst (UpdateVolSurface pair flatVol now s) = Returns (Some e3) \<longrightarrow>
      snd (UpdateVolSurface pair flatVol now s) = s)
   \<and> (f64_le rate (Fin 0) \<longrightarrow>
      fst (UpdateSpotRate pair rate now s) = Returns (Some (InvalidRate rate pair)))
   \<and> (f64_lt flatRate (Fin 0) \<longrightarrow>
      fst (UpdateDiscountCurve currency flatRate compounding now s) =
        Returns (Some (InvalidFlatRate flatRate currency)))
   \<and> (f64_lt flatVol (Fin 0) \<or> f64_gt flatVol (Fin 1) \<longrightarrow>
      fst (UpdateVolSurface pair flatVol now s) = Returns (Some (InvalidFlatVol flatVol pair)))"
  by (simp add: UpdateSpotRate_def UpdateDiscountCurve_def UpdateVolSurface_def
      split: option.splits)

theorem rejected_update_atomic_witness:
  "f64_le (Fin 0) (Fin 0) \<and> f64_lt (Fin (- 1)) (Fin 0) \<and> f64_gt (Fin 2) (Fin 1)
   \<and> UpdateSpotRate ''EUR/USD'' (Fin 0) 5 example_market
     = (Returns (Some (InvalidRate (Fin 0) ''EUR/USD'')), example_market)
   \<and> UpdateDiscountCurve ''USD'' (Fin (- 1)) ''continuous'' 5 example_market
     = (Returns (Some (InvalidFlatRate (Fin (- 1)) ''USD'')), example_market)
   \<and> UpdateVolSurface ''EUR/USD'' (Fin 2) 5 example_market
     = (Returns (Some (InvalidFlatVol (Fin 2) ''EUR/USD'')), example_market)"
proof -
  have g: "f64_le (Fin 0) (Fin 0)" "f64_lt (Fin (- 1)) (Fin 0)" "f64_gt (Fin 2) (Fin 1)"
    by (simp_all add: f64_gt_def)
  from rejected_update_atomic [of "''EUR/USD''" "Fin 0" 5 example_market
      "InvalidRate (Fin 0) ''EUR/USD''" "''USD''" "Fin (- 1)" "''continuous''"
      "InvalidFlatRate (Fin (- 1)) ''USD''" "Fin 2" "InvalidFlatVol (Fin 2) ''EUR/USD''"] g
  show ?thesis by (simp add: prod_eq_iff)
qed

text \<open>
  Claim C6, as the code has it. A volatility above 1 is rejected although it is not
  negative: the guard of \<open>UpdateVolSurface\<close> accepts the interval from 0 to 1 only.
\<close>

theorem vol_above_one_rejected:
  "f64_le (Fin 0) (Fin 2) \<and> \<not> f64_lt (Fin 2) (Fin 0)
   \<and> fst (UpdateVolSurface ''EUR/USD'' (Fin 2) 9
        (NewManager no_tables))
     = Returns (Some (InvalidFlatVol (Fin 2) ''EUR/USD''))
   \<and> fst (GetVolSurface ''EUR/USD'' (snd (UpdateVolSurface ''EUR/USD'' (Fin 2) 9
        (NewManager no_tables))))
     = Inl (VolSurfaceNotFound ''EUR/USD'')"
  by (simp add: UpdateVolSurface_def GetVolSurface_def f64_gt_def store_defs)

lemma f64_range_cases:
  "f64_le (Fin 0) v \<Longrightarrow> f64_le v (Fin 1) \<Longrightarrow> \<not> f64_lt v (Fin 0) \<and> \<not> f64_gt v (Fin 1)"
  by (cases v) (auto simp: f64_gt_def)

text \<open>
  Claim C6, amended. For every pair and every volatility \<open>v\<close> with
  \<open>0 \<le> v \<le> 1\<close>, \<open>UpdateVolSurface\<close> on a manager whose vol-surface map is
  allocated returns no error and stores \<open>v\<close> as the flat volatility of the pair; and
  in every state it returns an error exactly when \<open>v < 0\<close> or \<open>v > 1\<close>.
\<close>

theorem vol_update_in_unit_interval:
  "(allocated (volMaps (mem s)) (volSurfaces (mgr s)) \<and> f64_le (Fin 0) v \<and> f64_le v (Fin 1) \<longrightarrow>
      fst (UpdateVolSurface pair v now s) = Returns None
      \<and> fst (GetVolSurface pair (snd (UpdateVolSurface pair v now s)))
          = Inr \<lparr>vs_Pair = pair, vs_FlatVol = v, vs_Timestamp = now\<rparr>)
   \<and> ((\<exists>e. fst (UpdateVolSurface pair v now s) = Returns (Some e))
        \<longleftrightarrow> f64_lt v (Fin 0) \<or> f64_gt v (Fin 1))"
proof -
  have a: "fst (UpdateVolSurface pair v now s) = Returns None
      \<and> fst (GetVolSurface pair (snd (UpdateVolSurface pair v now s)))
          = Inr \<lparr>vs_Pair = pair, vs_FlatVol = v, vs_Timestamp = now\<rparr>"
    if "allocated (volMaps (mem s)) (volSurfaces (mgr s))" "f64_le (Fin 0) v" "f64_le v (Fin 1)"
  proof -
    from that(1) obtain a where r: "volSurfaces (mgr s) = Some a" "a < length (volMaps (mem s))"
      by (auto simp: allocated_def split: option.splits)
    from that(2,3) have g: "\<not> f64_lt v (Fin 0)" "\<not> f64_gt v (Fin 1)"
      using f64_range_cases by blast+
    show ?thesis using r g
      by (simp add: UpdateVolSurface_def GetVolSurface_def map_set_def map_get_def deref_def)
  qed
  have b: "(\<exists>e. fst (UpdateVolSurface pair v now s) = Returns (Some e))
        \<longleftrightarrow> f64_lt v (Fin 0) \<or> f64_gt v (Fin 1)"
    by (auto simp: UpdateVolSurface_def split: option.splits)
  from a b show ?thesis by blast
qed

theorem vol_update_in_unit_interval_witness:
  "allocated (volMaps (mem (NewManager no_tables)))
     (volSurfaces (mgr (NewManager no_tables)))
   \<and> f64_le (Fin 0) (Fin 0.12) \<and> f64_le (Fin 0.12) (Fin 1)
   \<and> fst (UpdateVolSurface ''EUR/USD'' (Fin 0.12) 9
        (NewManager no_tables)) = Returns None
   \<and> fst (GetVolSurface ''EUR/USD'' (snd (UpdateVolSurface ''EUR/USD'' (Fin 0.12) 9
        (NewManager no_tables))))
     = Inr \<lparr>vs_Pair = ''EUR/USD'', vs_FlatVol = Fin 0.12, vs_Timestamp = 9\<rparr>"
proof -
  have h: "allocated (volMaps (mem (NewManager no_tables)))
     (volSurfaces (mgr (NewManager no_tables)))"
    "f64_le (Fin 0) (Fin 0.12)" "f64_le (Fin 0.12) (Fin 1)"
    by (simp_all add: allocated_def store_defs)
  from vol_update_in_unit_interval [of "NewManager no_tables"
      "Fin 0.12" "''EUR/USD''" 9] h
  show ?thesis by simp
qed

text \<open>
  Claim C2, as the code has it. \<open>LoadSnapshot\<close> stores what it is given: after
  loading a snapshot that holds the rate -1 for a pair, the lookup of the pair succeeds
  with that rate.
\<close>

theorem load_snapshot_stores_negative_rate:
  "fst (GetSpotRate ''EUR/USD''
     (run [OpLoadSnapshot \<lparr>SpotRates = Some 0, DiscountCurves = None, VolSurfaces = None,
                            SnapshotTime = 2\<rparr>]
       (NewManager
          \<lparr>spotMaps = [fmupd ''EUR/USD''
               \<lparr>sr_Pair = ''EUR/USD'', sr_Rate = Fin (- 1), sr_Timestamp = 1\<rparr> fmempty],
           curveMaps = [], volMaps = []\<rparr>)))
    = Inr \<lparr>sr_Pair = ''EUR/USD'', sr_Rate = Fin (- 1), sr_Timestamp = 1\<rparr>
   \<and> \<not> f64_lt (Fin 0) (Fin (- 1))"
  by (simp add: GetSpotRate_def LoadSnapshot_def store_defs)

lemma f64_passes_guard: "\<not> f64_le rate (Fin 0) \<Longrightarrow> rate \<noteq> NaN \<Longrightarrow> f64_lt (Fin 0) rate"
  by (cases rate) auto

lemma positive_rates_upd:
  "positive_rates m \<Longrightarrow> f64_lt (Fin 0) (sr_Rate spot) \<Longrightarrow> positive_rates (fmupd pair spot m)"
  by (auto simp: positive_rates_def)

lemma spots_ok_NewManager: "spots_ok (NewManager h)"
  by (simp add: spots_ok_def positive_rates_def store_defs)

lemma spots_ok_step: "spots_ok s \<Longrightarrow> op_ok x s \<Longrightarrow> spots_ok (step x s)"
proof (cases x)
  case (OpUpdateSpotRate pair rate now)
  assume "spots_ok s" "op_ok x s"
  then show ?thesis
    using OpUpdateSpotRate
    by (auto simp: spots_ok_def UpdateSpotRate_def map_set_def table_def deref_def
        positive_rates_upd f64_passes_guard split: option.splits if_splits)
next
  case (OpUpdateDiscountCurve currency flatRate compounding now)
  assume "spots_ok s" "op_ok x s"
  then show ?thesis
    using OpUpdateDiscountCurve
    by (auto simp: spots_ok_def UpdateDiscountCurve_def split: option.splits)
next
  case (OpUpdateVolSurface pair flatVol now)
  assume "spots_ok s" "op_ok x s"
  then show ?thesis
    using OpUpdateVolSurface
    by (auto simp: spots_ok_def UpdateVolSurface_def split: option.splits)
next
  case (OpLoadSnapshot snapshot)
  assume "spots_ok s" "op_ok x s"
  then show ?thesis
    using OpLoadSnapshot by (simp add: spots_ok_def LoadSnapshot_def)
qed

lemma spots_ok_run: "spots_ok s \<Longrightarrow> admissible xs s \<Longrightarrow> spots_ok (run xs s)"
  by (induction xs arbitrary: s) (auto simp: spots_ok_step)

text \<open>
  Claim C2, amended. In every state reached from \<open>NewManager\<close> by spot updates
  whose rate is a number, curve updates, surface updates and the loading of snapshots
  whose spot rates are all strictly positive, every spot rate that a lookup returns is
  strictly positive.
\<close>

theorem reachable_spot_rates_positive:
  "admissible xs (NewManager h) \<Longrightarrow>
   fst (GetSpotRate pair (run xs (NewManager h))) = Inr spot \<Longrightarrow>
   f64_lt (Fin 0) (sr_Rate spot)"
proof -
  assume adm: "admissible xs (NewManager h)"
    and got: "fst (GetSpotRate pair (run xs (NewManager h))) = Inr spot"
  let ?s = "run xs (NewManager h)"
  from adm have "spots_ok ?s" by (simp add: spots_ok_run spots_ok_NewManager)
  moreover from got have "fmlookup (table (spotMaps (mem ?s)) (spotRates (mgr ?s))) pair = Some spot"
    by (auto simp: GetSpotRate_def map_get_table split: option.splits)
  ultimately show ?thesis by (auto simp: spots_ok_def positive_rates_def)
qed

theorem reachable_spot_rates_positive_witness:
  "admissible
     [OpUpdateSpotRate ''EUR/USD'' (Fin 1.1) 1,
      OpUpdateSpotRate ''EUR/USD'' (Fin (- 1)) 2,
      OpLoadSnapshot \<lparr>SpotRates = Some 0, DiscountCurves = None, VolSurfaces = None,
                       SnapshotTime = 3\<rparr>,
      OpUpdateVolSurface ''GBP/USD'' (Fin 0.2) 4,
      OpUpdateSpotRate ''EUR/USD'' (Fin 1.2) 5]
     (NewManager
        \<lparr>spotMaps = [fmupd ''GBP/USD''
             \<lparr>sr_Pair = ''GBP/USD'', sr_Rate = Fin 1.3, sr_Timestamp = 0\<rparr> fmempty],
         curveMaps = [], volMaps = []\<rparr>)
   \<and> fst (GetSpotRate ''EUR/USD''
       (run
         [OpUpdateSpotRate ''EUR/USD'' (Fin 1.1) 1,
          OpUpdateSpotRate ''EUR/USD'' (Fin (- 1)) 2,
          OpLoadSnapshot \<lparr>SpotRates = Some 0, DiscountCurves = None, VolSurfaces = None,
                           SnapshotTime = 3\<rparr>,
          OpUpdateVolSurface ''GBP/USD'' (Fin 0.2) 4,
          OpUpdateSpotRate ''EUR/USD'' (Fin 1.2) 5]
         (NewManager
            \<lparr>spotMaps = [fmupd ''GBP/USD''
                 \<lparr>sr_Pair = ''GBP/USD'', sr_Rate = Fin 1.3, sr_Timestamp = 0\<rparr> fmempty],
             curveMaps = [], volMaps = []\<rparr>)))
     = Inr \<lparr>sr_Pair = ''EUR/USD'', sr_Rate = Fin 1.2, sr_Timestamp = 5\<rparr>
   \<and> f64_lt (Fin 0) (sr_Rate \<lparr>sr_Pair = ''EUR/USD'', sr_Rate = Fin 1.2, sr_Timestamp = 5\<rparr>)"
proof -
  let ?xs = "[OpUpdateSpotRate ''EUR/USD'' (Fin 1.1) 1,
      OpUpdateSpotRate ''EUR/USD'' (Fin (- 1)) 2,
      OpLoadSnapshot \<lparr>SpotRates = Some 0, DiscountCurves = None, VolSurfaces = None,
                       SnapshotTime = 3\<rparr>,
      OpUpdateVolSurface ''GBP/USD'' (Fin 0.2) 4,
      OpUpdateSpotRate ''EUR/USD'' (Fin 1.2) 5]"
  let ?h = "\<lparr>spotMaps = [fmupd ''GBP/USD''
             \<lparr>sr_Pair = ''GBP/USD'', sr_Rate = Fin 1.3, sr_Timestamp = 0\<rparr> fmempty],
         curveMaps = [], volMaps = []\<rparr>"
  have a: "admissible ?xs (NewManager ?h)"
    by (simp add: UpdateSpotRate_def UpdateVolSurface_def LoadSnapshot_def
        positive_rates_def f64_gt_def store_defs fmpred_upd)
  have g: "fst (GetSpotRate ''EUR/USD'' (run ?xs (NewManager ?h)))
     = Inr \<lparr>sr_Pair = ''EUR/USD'', sr_Rate = Fin 1.2, sr_Timestamp = 5\<rparr>"
    by (simp add: GetSpotRate_def UpdateSpotRate_def UpdateVolSurface_def LoadSnapshot_def
        f64_gt_def store_defs)
  from reachable_spot_rates_positive [OF a g] a g show ?thesis by simp
qed

text \<open>
  Claim C3, at the input where the code departs from it. A snapshot is taken from a new
  manager and is empty; it is loaded back into the manager, which from then on uses the
  snapshot's own tables; the next spot update succeeds and the snapshot holds the
  updated pair.
\<close>

theorem loaded_snapshot_is_mutated:
  "table (spotMaps (mem (snd (GetSnapshot 1
        (NewManager no_tables)))))
      (SpotRates (fst (GetSnapshot 1
        (NewManager no_tables)))) = fmempty
   \<and> UpdateSpotRate ''EUR/USD'' (Fin 1.1) 2
        (LoadSnapshot
          (fst (GetSnapshot 1 (NewManager no_tables)))
          (snd (GetSnapshot 1 (NewManager no_tables))))
     = (Returns None,
        \<lparr>mgr = \<lparr>spotRates = Some 1, discountCurves = Some 1, volSurfaces = Some 1\<rparr>,
         mem = \<lparr>spotMaps = [fmempty, fmupd ''EUR/USD''
                    \<lparr>sr_Pair = ''EUR/USD'', sr_Rate = Fin 1.1, sr_Timestamp = 2\<rparr> fmempty],
                 curveMaps = [fmempty, fmempty], volMaps = [fmempty, fmempty]\<rparr>\<rparr>)
   \<and> table (spotMaps (mem (snd (UpdateSpotRate ''EUR/USD'' (Fin 1.1) 2
        (LoadSnapshot
          (fst (GetSnapshot 1 (NewManager no_tables)))
          (snd (GetSnapshot 1 (NewManager no_tables))))))))
      (SpotRates (fst (GetSnapshot 1
        (NewManager no_tables))))
     = fmupd ''EUR/USD'' \<lparr>sr_Pair = ''EUR/USD'', sr_Rate = Fin 1.1, sr_Timestamp = 2\<rparr> fmempty"
  by (simp add: GetSnapshot_def LoadSnapshot_def UpdateSpotRate_def store_defs)

text \<open>
  What does hold: taking a snapshot changes neither the manager nor the entries of its
  maps, the snapshot holds copies of those entries, and no sequence of updates without
  \<open>LoadSnapshot\<close> changes them.
\<close>

lemma table_append:
  "table (h @ [table h r]) r = table h r"
  by (auto simp: table_def deref_def nth_append split: option.splits)

lemma GetSnapshot_keeps_manager:
  "mgr (snd (GetSnapshot now s)) = mgr s
   \<and> table (spotMaps (mem (snd (GetSnapshot now s)))) (spotRates (mgr s))
       = table (spotMaps (mem s)) (spotRates (mgr s))
   \<and> table (curveMaps (mem (snd (GetSnapshot now s)))) (discountCurves (mgr s))
       = table (curveMaps (mem s)) (discountCurves (mgr s))
   \<and> table (volMaps (mem (snd (GetSnapshot now s)))) (volSurfaces (mgr s))
       = table (volMaps (mem s)) (volSurfaces (mgr s))"
  by (simp add: GetSnapshot_def map_clone_def table_append)

lemma GetSnapshot_copies:
  "table (spotMaps (mem (snd (GetSnapshot now s)))) (SpotRates (fst (GetSnapshot now s)))
       = table (spotMaps (mem s)) (spotRates (mgr s))
   \<and> table (curveMaps (mem (snd (GetSnapshot now s)))) (DiscountCurves (fst (GetSnapshot now s)))
       = table (curveMaps (mem s)) (discountCurves (mgr s))
   \<and> table (volMaps (mem (snd (GetSnapshot now s)))) (VolSurfaces (fst (GetSnapshot now s)))
       = table (volMaps (mem s)) (volSurfaces (mgr s))"
  by (simp add: GetSnapshot_def map_clone_def table_def deref_def)

lemma table_update_other:
  "r \<noteq> Some a \<Longrightarrow> table (h[a := m]) r = table h r"
  by (cases r) (auto simp: table_def deref_def)

lemma step_keeps_unshared:
  assumes "apart s snapshot" and "loads_nothing [x]"
  shows "apart (step x s) snapshot
    \<and> table (spotMaps (mem (step x s))) (SpotRates snapshot)
        = table (spotMaps (mem s)) (SpotRates snapshot)
    \<and> table (curveMaps (mem (step x s))) (DiscountCurves snapshot)
        = table (curveMaps (mem s)) (DiscountCurves snapshot)
    \<and> table (volMaps (mem (step x s))) (VolSurfaces snapshot)
        = table (volMaps (mem s)) (VolSurfaces snapshot)"
proof (cases x)
  case (OpUpdateSpotRate pair rate now)
  with assms(1) show ?thesis
    by (auto simp: apart_def UpdateSpotRate_def map_set_def table_update_other
        split: option.splits if_splits)
next
  case (OpUpdateDiscountCurve currency flatRate compounding now)
  with assms(1) show ?thesis
    by (auto simp: apart_def UpdateDiscountCurve_def map_set_def table_update_other
        split: option.splits if_splits)
next
  case (OpUpdateVolSurface pair flatVol now)
  with assms(1) show ?thesis
    by (auto simp: apart_def UpdateVolSurface_def map_set_def table_update_other
        split: option.splits if_splits)
next
  case (OpLoadSnapshot snapshot')
  with assms(2) show ?thesis by simp
qed

lemma run_keeps_unshared:
  "apart s snapshot \<Longrightarrow> loads_nothing xs \<Longrightarrow>
   table (spotMaps (mem (run xs s))) (SpotRates snapshot)
        = table (spotMaps (mem s)) (SpotRates snapshot)
    \<and> table (curveMaps (mem (run xs s))) (DiscountCurves snapshot)
        = table (curveMaps (mem s)) (DiscountCurves snapshot)
    \<and> table (volMaps (mem (run xs s))) (VolSurfaces snapshot)
        = table (volMaps (mem s)) (VolSurfaces snapshot)"
proof (induction xs arbitrary: s)
  case Nil
  then show ?case by simp
next
  case (Cons x xs)
  from Cons.prems(2) have l: "loads_nothing [x]" "loads_nothing xs"
    by (cases x; simp)+
  from step_keeps_unshared [OF Cons.prems(1) l(1)] Cons.IH [of "step x s"] l(2)
  show ?case by simp
qed

lemma GetSnapshot_apart:
  assumes "allocated (spotMaps (mem s)) (spotRates (mgr s))"
    and "allocated (curveMaps (mem s)) (discountCurves (mgr s))"
    and "allocated (volMaps (mem s)) (volSurfaces (mgr s))"
  shows "apart (snd (GetSnapshot now s)) (fst (GetSnapshot now s))"
  using assms
  by (auto simp: apart_def GetSnapshot_def map_clone_def allocated_def split: option.splits)

lemma snapshot_survives_updates:
  assumes "allocated (spotMaps (mem s)) (spotRates (mgr s))"
    and "allocated (curveMaps (mem s)) (discountCurves (mgr s))"
    and "allocated (volMaps (mem s)) (volSurfaces (mgr s))"
    and "loads_nothing xs"
  shows "table (spotMaps (mem (run xs (snd (GetSnapshot now s)))))
           (SpotRates (fst (GetSnapshot now s)))
         = table (spotMaps (mem s)) (spotRates (mgr s))"
  using run_keeps_unshared [OF GetSnapshot_apart [OF assms(1-3)] assms(4), of now]
    GetSnapshot_copies [of now s]
  by simp

text \<open>
  Two behaviours that the amended statements of this section keep out of their
  hypotheses. A rate that is not a number passes the guard \<^verbatim>\<open>rate <= 0\<close> and is stored;
  and after a snapshot with a \<^verbatim>\<open>nil\<close> map has been loaded, an update of that map panics
  and stores nothing.
\<close>

lemma nan_rate_is_stored:
  "fst (UpdateSpotRate ''EUR/USD'' NaN 1 (NewManager no_tables)) = Returns None
   \<and> fst (GetSpotRate ''EUR/USD'' (snd (UpdateSpotRate ''EUR/USD'' NaN 1 (NewManager no_tables))))
       = Inr \<lparr>sr_Pair = ''EUR/USD'', sr_Rate = NaN, sr_Timestamp = 1\<rparr>"
  by (simp add: UpdateSpotRate_def GetSpotRate_def store_defs)

lemma update_of_nil_map_panics:
  "UpdateVolSurface ''EUR/USD'' (Fin 0.12) 2
     (LoadSnapshot \<lparr>SpotRates = None, DiscountCurves = None, VolSurfaces = None,
                     SnapshotTime = 1\<rparr> (NewManager no_tables))
   = (Panics,
      LoadSnapshot \<lparr>SpotRates = None, DiscountCurves = None, VolSurfaces = None,
                     SnapshotTime = 1\<rparr> (NewManager no_tables))"
  by (simp add: UpdateVolSurface_def LoadSnapshot_def f64_gt_def store_defs)

section \<open>The contract model\<close>

text \<open>
  Claim C1, as the code has it. No value of the Go contract model stands for a
  conditional contract: the package declares neither \<^verbatim>\<open>When\<close> nor an observable type.
\<close>

theorem when_not_representable:
  "SWhen (ConstBool True) SZero \<notin> range to_spec"
proof
  assume "SWhen (ConstBool True) SZero \<in> range to_spec"
  then obtain c where "to_spec c = SWhen (ConstBool True) SZero" by auto
  then show False by (cases c) simp_all
qed

lemma of_spec_to_spec: "of_spec (to_spec c) = Some c"
  by (induction c) simp_all

lemma to_spec_of_spec: "of_spec s = Some c \<Longrightarrow> to_spec c = s"
  by (induction s arbitrary: c) (auto split: option.splits)

lemma of_spec_when_free: "when_free s \<Longrightarrow> \<exists>c. of_spec s = Some c"
  by (induction s) auto

lemma when_free_to_spec: "when_free (to_spec c)"
  by (induction c) simp_all

text \<open>
  Claim C1, amended. The seven variants Zero, Spot, Forward, EurOption, ZCB, Scale and
  Combine are representable and round-trip without loss: mapping a Go contract to the
  data model of the specification and back gives the same contract, different contracts
  map to different values, and the representable contracts of the specification are
  exactly those without a \<^verbatim>\<open>When\<close> node.
\<close>

theorem seven_variants_round_trip:
  "of_spec (to_spec c) = Some c
   \<and> (to_spec c = to_spec c' \<longrightarrow> c = c')
   \<and> (of_spec s = Some c \<longrightarrow> to_spec c = s)
   \<and> (s \<in> range to_spec \<longleftrightarrow> when_free s)
   \<and> of_spec (SWhen cond s) = None"
proof -
  have inj: "c = c'" if "to_spec c = to_spec c'"
  proof -
    from that have "of_spec (to_spec c) = of_spec (to_spec c')" by simp
    then show ?thesis by (simp add: of_spec_to_spec)
  qed
  have rng: "s \<in> range to_spec \<longleftrightarrow> when_free s"
  proof
    assume "s \<in> range to_spec"
    then show "when_free s" by (auto simp: when_free_to_spec)
  next
    assume "when_free s"
    then obtain c where "of_spec s = Some c" using of_spec_when_free by blast
    then have "to_spec c = s" by (rule to_spec_of_spec)
    then show "s \<in> range to_spec" by blast
  qed
  from inj rng show ?thesis by (auto simp: of_spec_to_spec to_spec_of_spec)
qed

theorem seven_variants_round_trip_witness:
  "of_spec (to_spec (Combine (Scale (Fin 1000000) (EurOption Call (Fin 1.15) 20251231 USD EUR))
                       (ZCB USD 20251231)))
     = Some (Combine (Scale (Fin 1000000) (EurOption Call (Fin 1.15) 20251231 USD EUR))
                       (ZCB USD 20251231))
   \<and> of_spec (SCombine (SScale (Fin 1000000) (SEurOption Call (Fin 1.15) 20251231 USD EUR))
                       (SZCB USD 20251231))
     = Some (Combine (Scale (Fin 1000000) (EurOption Call (Fin 1.15) 20251231 USD EUR))
                       (ZCB USD 20251231))
   \<and> to_spec (Combine (Scale (Fin 1000000) (EurOption Call (Fin 1.15) 20251231 USD EUR))
                       (ZCB USD 20251231))
     = SCombine (SScale (Fin 1000000) (SEurOption Call (Fin 1.15) 20251231 USD EUR))
                       (SZCB USD 20251231)
   \<and> SCombine (SScale (Fin 1000000) (SEurOption Call (Fin 1.15) 20251231 USD EUR))
                       (SZCB USD 20251231) \<in> range to_spec
   \<and> when_free (SCombine (SScale (Fin 1000000) (SEurOption Call (Fin 1.15) 20251231 USD EUR))
                       (SZCB USD 20251231))"
proof -
  let ?c = "Combine (Scale (Fin 1000000) (EurOption Call (Fin 1.15) 20251231 USD EUR))
                       (ZCB USD 20251231)"
  let ?s = "SCombine (SScale (Fin 1000000) (SEurOption Call (Fin 1.15) 20251231 USD EUR))
                       (SZCB USD 20251231)"
  have o: "of_spec ?s = Some ?c" by simp
  have w: "when_free ?s" by simp
  from seven_variants_round_trip [of ?c ?c ?s "ConstBool True"] o w
  show ?thesis by simp
qed

section \<open>Valuation\<close>

lemma depth_le_nodes: "depth c \<le> nodes c"
  by (induction c) auto

lemma price_by_nodes:
  "price eng c mkt params =
     (if nodeLimit eng < nodes c then Inl MalformedContract
      else if model params \<noteq> BlackScholes then Inl UnsupportedModel
      else reduce eng c mkt params)"
  using depth_le_nodes [of c] by (auto simp: price_def)

lemma price_Inr:
  "price eng c mkt params = Inr v \<Longrightarrow>
     nodes c \<le> nodeLimit eng \<and> model params = BlackScholes \<and> reduce eng c mkt params = Inr v"
  using depth_le_nodes [of c] by (auto simp: price_def split: if_splits)

lemma nodes_zero_chain: "nodes (zero_chain k) = Suc k"
  by (induction k) auto

lemma reduce_zero_chain: "reduce example_engine (zero_chain k) () example_params = Inr (Fin 0)"
  by (induction k) (auto simp: example_engine_def checked_def)

text \<open>
  Claim C7, as the specification's engine has it. Two contracts of 601 nodes are each
  priced at 0, and their combination, of 1203 nodes, is rejected with
  \<^verbatim>\<open>MalformedContract\<close>; a zero-coupon bond is priced at 0.95, and scaled by an
  infinite notional it fails with \<^verbatim>\<open>NumericDomainError\<close>, the product being infinite.
\<close>

theorem composite_price_fails:
  "price example_engine (zero_chain 600) () example_params = Inr (Fin 0)
   \<and> price example_engine (SCombine (zero_chain 600) (zero_chain 600)) () example_params
       = Inl MalformedContract
   \<and> sum64 example_engine (Fin 0) (Fin 0) = Fin 0
   \<and> price example_engine (SZCB USD 20251231) () example_params = Inr (Fin 0.95)
   \<and> product64 example_engine PosInf (Fin 0.95) = PosInf
   \<and> price example_engine (SScale PosInf (SZCB USD 20251231)) () example_params
       = Inl NumericDomainError"
proof -
  have lim: "nodeLimit example_engine = 1000" "model example_params = BlackScholes"
    by (simp_all add: example_engine_def example_params_def)
  have a: "price example_engine (zero_chain 600) () example_params = Inr (Fin 0)"
    by (simp add: price_by_nodes nodes_zero_chain reduce_zero_chain lim)
  have b: "price example_engine (SCombine (zero_chain 600) (zero_chain 600)) () example_params
       = Inl MalformedContract"
    by (simp add: price_by_nodes nodes_zero_chain lim)
  have c: "price example_engine (SZCB USD 20251231) () example_params = Inr (Fin 0.95)"
    by (simp add: price_by_nodes example_engine_def example_params_def checked_def)
  have d: "product64 example_engine PosInf (Fin 0.95) = PosInf"
    by (simp add: example_engine_def)
  have e: "price example_engine (SScale PosInf (SZCB USD 20251231)) () example_params
       = Inl NumericDomainError"
    by (simp add: price_by_nodes example_engine_def example_params_def checked_def)
  have f: "sum64 example_engine (Fin 0) (Fin 0) = Fin 0"
    by (simp add: example_engine_def)
  from a b c d e f show ?thesis by simp
qed

text \<open>
  Claim C7, amended. Valuation is linear wherever the composite is priced: when the
  prices of \<open>a\<close> and \<open>b\<close> are defined, \<open>Combine(a, b)\<close> is within the node limit
  and the sum of the two prices is finite, the price of \<open>Combine(a, b)\<close> is that sum;
  when the price of \<open>a\<close> is defined, \<open>Scale(n, a)\<close> is within the node limit and
  \<open>n\<close> times the price is finite, the price of \<open>Scale(n, a)\<close> is that product.
  Beyond the limit the composite fails with \<^verbatim>\<open>MalformedContract\<close>, and on a sum or
  product that is not finite with \<^verbatim>\<open>NumericDomainError\<close>.
\<close>

theorem price_linear_where_priced:
  "(price eng a mkt params = Inr va \<and> price eng b mkt params = Inr vb \<longrightarrow>
      price eng (SCombine a b) mkt params =
        (if nodeLimit eng < nodes (SCombine a b) then Inl MalformedContract
         else if is_finite (sum64 eng va vb) then Inr (sum64 eng va vb)
         else Inl NumericDomainError))
   \<and> (price eng a mkt params = Inr va \<longrightarrow>
      price eng (SScale n a) mkt params =
        (if nodeLimit eng < nodes (SScale n a) then Inl MalformedContract
         else if is_finite (product64 eng n va) then Inr (product64 eng n va)
         else Inl NumericDomainError))"
proof -
  have combine: "price eng (SCombine a b) mkt params =
        (if nodeLimit eng < nodes (SCombine a b) then Inl MalformedContract
         else if is_finite (sum64 eng va vb) then Inr (sum64 eng va vb)
         else Inl NumericDomainError)"
    if "price eng a mkt params = Inr va" and "price eng b mkt params = Inr vb"
  proof -
    from that have r: "reduce eng a mkt params = Inr va" "reduce eng b mkt params = Inr vb"
      and m: "model params = BlackScholes"
      by (auto dest: price_Inr)
    show ?thesis
      using r m by (simp add: price_by_nodes checked_def)
  qed
  have scale: "price eng (SScale n a) mkt params =
        (if nodeLimit eng < nodes (SScale n a) then Inl MalformedContract
         else if is_finite (product64 eng n va) then Inr (product64 eng n va)
         else Inl NumericDomainError)"
    if "price eng a mkt params = Inr va"
  proof -
    from that have r: "reduce eng a mkt params = Inr va" and m: "model params = BlackScholes"
      by (auto dest: price_Inr)
    show ?thesis
      using r m by (simp add: price_by_nodes checked_def)
  qed
  from combine scale show ?thesis by blast
qed

theorem price_linear_where_priced_witness:
  "price example_engine (SZCB USD 20251231) () example_params = Inr (Fin 0.95)
   \<and> price example_engine (SWhen (ConstBool True) (SZCB EUR 20251231)) () example_params
       = Inr (Fin 0.95)
   \<and> price example_engine
        (SCombine (SZCB USD 20251231) (SWhen (ConstBool True) (SZCB EUR 20251231))) () example_params
       = Inr (Fin 1.9)
   \<and> price example_engine (SScale (Fin 1000) (SZCB USD 20251231)) () example_params
       = Inr (Fin 950)"
proof -
  have a: "price example_engine (SZCB USD 20251231) () example_params = Inr (Fin 0.95)"
    by (simp add: price_by_nodes example_engine_def example_params_def checked_def)
  have b: "price example_engine (SWhen (ConstBool True) (SZCB EUR 20251231)) () example_params
       = Inr (Fin 0.95)"
    by (simp add: price_by_nodes example_engine_def example_params_def checked_def)
  from price_linear_where_priced [of example_engine "SZCB USD 20251231" "()" example_params
      "Fin 0.95" "SWhen (ConstBool True) (SZCB EUR 20251231)" "Fin 0.95" "Fin 1000"] a b
  show ?thesis by (simp add: example_engine_def)
qed

end
